theory Spec2Isabelle
  imports Complex_Main "HOL-Library.Sublist" "HOL-Library.List_Lexorder" "HOL-Library.Char_ord"
begin

section \<open>The electricity consumption dashboard (electricity_dashboard.py)\<close>

text \<open>
  The dashboard is one script: it loads a table, checks its header, computes four
  summary numbers, builds grouped views and offers two downloads. The embedding follows
  the script from top to bottom. Names are those of the script's variables.

  Numbers: the script computes with Python floats. They are modelled as \<^typ>\<open>real\<close>,
  so sums, products and quotients are exact; binary rounding is not part of the model,
  and neither is anything that depends on it, such as the order in which the library
  accumulates a sum or the decimal text it prints for a number. The library's parser
  and serializer (\<open>pd.read_csv\<close>, \<open>to_csv\<close>) are parameters.
\<close>

subsection \<open>Data model\<close>

text \<open>
  One row of the table: the four fields the script reads. A table is its header
  (\<open>df.columns\<close>) and its rows. A field whose name is not in the header is not part of
  the table; the script never reads it, because validation stops the run first.
\<close>

record usage_record =
  Month :: string
  UnitName :: string
  UnitsConsumed :: real
  Cost :: real

record dataframe =
  columns :: "string list"
  rows :: "usage_record list"

text \<open>\<open>pd.DataFrame(data)\<close> for a list of dictionaries with the four keys.\<close>

definition DataFrame :: "usage_record list \<Rightarrow> dataframe" where
  "DataFrame data =
     \<lparr>columns = [''Month'', ''UnitName'', ''UnitsConsumed'', ''Cost''], rows = data\<rparr>"

subsection \<open>Data validation (lines 112-116)\<close>

definition required_columns :: "string list" where
  "required_columns = [''Month'', ''UnitName'', ''UnitsConsumed'', ''Cost'']"

text \<open>\<open>sep.join(xs)\<close>\<close>

fun join :: "string \<Rightarrow> string list \<Rightarrow> string" where
  "join sep [] = []"
| "join sep [x] = x"
| "join sep (x # y # ys) = x @ sep @ join sep (y # ys)"

text \<open>
  The check of the header. \<open>Inl msg\<close> is the branch that calls \<open>st.error(msg)\<close> and then
  \<open>st.stop()\<close>; \<open>Inr ()\<close> lets the script go on.
\<close>

definition validate :: "dataframe \<Rightarrow> string + unit" where
  "validate df =
     (if list_all (\<lambda>col. col \<in> set (columns df)) required_columns then Inr ()
      else Inl (''CSV file must contain columns: '' @ join '', '' required_columns))"

text \<open>The required names that the header of a table lacks.\<close>

definition missing_columns :: "dataframe \<Rightarrow> string list" where
  "missing_columns df = filter (\<lambda>col. col \<notin> set (columns df)) required_columns"

text \<open>The required names that occur in a message.\<close>

definition named_columns :: "string \<Rightarrow> string list" where
  "named_columns msg = filter (\<lambda>col. sublist col msg) required_columns"


subsection \<open>Sample data (lines 29-51)\<close>

definition months :: "string list" where
  "months = [''January'', ''February'', ''March'', ''April'', ''May'', ''June'',
             ''July'', ''August'', ''September'', ''October'', ''November'', ''December'']"

definition units :: "string list" where
  "units = [''Kitchen'', ''Living Room'', ''Bedroom'', ''Office'', ''Garage'']"

text \<open>
  \<open>round(x, 2)\<close>: the nearest multiple of 1/100, a tie going to the even multiple.
\<close>

definition py_round2 :: "real \<Rightarrow> real" where
  "py_round2 x =
     (let y = x * 100; f = \<lfloor>y\<rfloor>; d = y - of_int f
      in of_int (if d < 1 / 2 then f
                 else if 1 / 2 < d then f + 1
                 else if even f then f else f + 1) / 100)"

text \<open>
  The two random draws of the loop body are not computed by the script; they come from
  the generator of numpy. \<open>random_normal rnd k\<close> is what \<open>np.random.normal(100, 20)\<close>
  returns in iteration \<open>k\<close> of the loop, \<open>random_uniform rnd k\<close> what
  \<open>np.random.uniform(0.10, 0.15)\<close> returns there.
\<close>

record random_source =
  random_normal :: "nat \<Rightarrow> real"
  random_uniform :: "nat \<Rightarrow> real"

text \<open>The body of the inner loop: the dictionary appended to \<open>data\<close>.\<close>

definition sample_record :: "real \<Rightarrow> real \<Rightarrow> string \<Rightarrow> string \<Rightarrow> usage_record" where
  "sample_record base_consumption cost_per_unit month unit =
     (let consumption = max 50 base_consumption;
          cost = consumption * cost_per_unit
      in \<lparr>Month = month, UnitName = unit,
          UnitsConsumed = py_round2 consumption, Cost = py_round2 cost\<rparr>)"

text \<open>\<open>for unit in units\<close>: the state is \<open>data\<close> and the number of iterations so far.\<close>

fun units_loop ::
  "random_source \<Rightarrow> string \<Rightarrow> string list \<Rightarrow> usage_record list \<times> nat \<Rightarrow> usage_record list \<times> nat"
where
  "units_loop rnd month [] (data, k) = (data, k)"
| "units_loop rnd month (unit # rest) (data, k) =
     units_loop rnd month rest
       (data @ [sample_record (random_normal rnd k) (random_uniform rnd k) month unit], Suc k)"

text \<open>\<open>for month in months\<close>\<close>

fun months_loop ::
  "random_source \<Rightarrow> string list \<Rightarrow> usage_record list \<times> nat \<Rightarrow> usage_record list \<times> nat"
where
  "months_loop rnd [] s = s"
| "months_loop rnd (month # rest) s = months_loop rnd rest (units_loop rnd month units s)"

definition create_sample_data :: "random_source \<Rightarrow> dataframe" where
  "create_sample_data rnd = DataFrame (fst (months_loop rnd months ([], 0)))"

subsection \<open>Loading the table (lines 53-106)\<close>

text \<open>What the sidebar shows while loading.\<close>

datatype notice = Sidebar_success string | Sidebar_error string | Sidebar_info string


text \<open>
  Manual entry. \<open>st.session_state\<close> holds the list \<open>manual_data\<close>, or does not have the
  key yet (\<open>None\<close>).
\<close>

record session_state =
  manual_data :: "usage_record list option"

definition manual_entry ::
  "session_state \<Rightarrow> bool \<Rightarrow> string \<Rightarrow> string \<Rightarrow> real \<Rightarrow> real \<Rightarrow> session_state \<times> notice option"
where
  "manual_entry st submitted month unit_name units_consumed cost =
     (if submitted \<and> unit_name \<noteq> [] then
        let st1 = (if manual_data st = None then st\<lparr>manual_data := Some []\<rparr> else st);
            entry = \<lparr>Month = month, UnitName = unit_name,
                     UnitsConsumed = units_consumed, Cost = cost\<rparr>
        in (st1\<lparr>manual_data := map_option (\<lambda>xs. xs @ [entry]) (manual_data st1)\<rparr>,
            Some (Sidebar_success ''Entry added!''))
      else (st, None))"

definition load_manual :: "session_state \<Rightarrow> random_source \<Rightarrow> dataframe" where
  "load_manual st rnd =
     (case manual_data st of
        Some (x # xs) \<Rightarrow> DataFrame (x # xs)
      | _ \<Rightarrow> create_sample_data rnd)"

definition load_sample :: "random_source \<Rightarrow> dataframe \<times> notice" where
  "load_sample rnd = (create_sample_data rnd, Sidebar_info ''Using sample data for demonstration'')"

subsection \<open>Key performance indicators (lines 118-122)\<close>

text \<open>\<open>df['UnitsConsumed'].sum()\<close> and \<open>df['Cost'].sum()\<close>\<close>

definition total_units :: "dataframe \<Rightarrow> real" where
  "total_units df = sum_list (map UnitsConsumed (rows df))"

definition total_cost :: "dataframe \<Rightarrow> real" where
  "total_cost df = sum_list (map Cost (rows df))"

text \<open>
  The operator \<open>/\<close> with its failure written out, so that a division by zero is a
  value of the model and not the \<open>0\<close> that HOL gives to \<open>x / 0\<close>.
\<close>

datatype py_error = ZeroDivisionError

definition truediv :: "real \<Rightarrow> real \<Rightarrow> py_error + real" where
  "truediv a b = (if b = 0 then Inl ZeroDivisionError else Inr (a / b))"

text \<open>\<open>total_cost / total_units if total_units > 0 else 0\<close>\<close>

definition avg_cost_per_unit :: "dataframe \<Rightarrow> py_error + real" where
  "avg_cost_per_unit df =
     (if total_units df > 0 then truediv (total_cost df) (total_units df) else Inr 0)"

text \<open>\<open>df['UnitName'].nunique()\<close>\<close>

definition num_departments :: "dataframe \<Rightarrow> nat" where
  "num_departments df = length (remdups (map UnitName (rows df)))"

subsection \<open>Grouped views (lines 161-167, 186, 210-212, 227)\<close>

text \<open>
  \<open>df.groupby(key)[val].sum().reset_index()\<close>: one row per distinct key, the keys in
  ascending order (strings compare character by character), each with the sum of
  \<open>val\<close> over the rows of that key.
\<close>

definition groupby_sum ::
  "(usage_record \<Rightarrow> string) \<Rightarrow> (usage_record \<Rightarrow> real) \<Rightarrow> usage_record list \<Rightarrow> (string \<times> real) list"
where
  "groupby_sum key val rs =
     map (\<lambda>k. (k, sum_list (map val (filter (\<lambda>r. key r = k) rs)))) (sort (remdups (map key rs)))"

definition month_order :: "string list" where
  "month_order = [''January'', ''February'', ''March'', ''April'', ''May'', ''June'',
                  ''July'', ''August'', ''September'', ''October'', ''November'', ''December'']"

text \<open>
  \<open>pd.Categorical(values, categories=cats, ordered=True)\<close>: a value that is not a
  category becomes the missing value (\<open>None\<close>).
\<close>

definition Categorical :: "string list \<Rightarrow> string \<Rightarrow> string option" where
  "Categorical cats v = (if v \<in> set cats then Some v else None)"

text \<open>
  The rank that \<open>sort_values\<close> sorts a categorical by: the position of the category in
  \<open>cats\<close>; the missing value goes after every category.
\<close>

fun category_rank :: "string list \<Rightarrow> string option \<Rightarrow> nat" where
  "category_rank cats None = length cats"
| "category_rank cats (Some v) = length (takeWhile (\<lambda>c. c \<noteq> v) cats)"

text \<open>
  Lines 166-167 and 211-212: the \<open>Month\<close> column of the grouped table is replaced by
  its categorical, then the rows are sorted by it. Rows of equal rank (only rows whose
  month is missing) keep their order.
\<close>

definition order_months :: "(string \<times> real) list \<Rightarrow> (string option \<times> real) list" where
  "order_months t =
     sort_key (\<lambda>row. category_rank month_order (fst row))
       (map (\<lambda>(m, v). (Categorical month_order m, v)) t)"

definition monthly_data :: "dataframe \<Rightarrow> (string option \<times> real) list" where
  "monthly_data df = order_months (groupby_sum Month UnitsConsumed (rows df))"

definition monthly_cost :: "dataframe \<Rightarrow> (string option \<times> real) list" where
  "monthly_cost df = order_months (groupby_sum Month Cost (rows df))"

text \<open>
  \<open>.sort_values('UnitsConsumed', ascending=True)\<close>; the order the library leaves rows of
  equal sum in is modelled as the order they had.
\<close>

definition unit_data :: "dataframe \<Rightarrow> (string \<times> real) list" where
  "unit_data df = sort_key snd (groupby_sum UnitName UnitsConsumed (rows df))"

definition unit_cost :: "dataframe \<Rightarrow> (string \<times> real) list" where
  "unit_cost df = groupby_sum UnitName Cost (rows df)"

subsection \<open>The script after loading (lines 112-304)\<close>

text \<open>
  The variables of the script. \<open>None\<close> is a variable that has not been assigned.
\<close>

record script_vars =
  var_df :: dataframe
  var_total_units :: "real option"
  var_total_cost :: "real option"
  var_avg_cost_per_unit :: "real option"
  var_num_departments :: "nat option"
  var_monthly_data :: "(string option \<times> real) list option"
  var_unit_data :: "(string \<times> real) list option"
  var_monthly_cost :: "(string option \<times> real) list option"
  var_unit_cost :: "(string \<times> real) list option"
  var_csv_data :: "string option"
  var_report :: "string option"

definition initial_vars :: "dataframe \<Rightarrow> script_vars" where
  "initial_vars df =
     \<lparr>var_df = df, var_total_units = None, var_total_cost = None,
      var_avg_cost_per_unit = None, var_num_departments = None,
      var_monthly_data = None, var_unit_data = None, var_monthly_cost = None,
      var_unit_cost = None, var_csv_data = None, var_report = None\<rparr>"

text \<open>Lines 119-122.\<close>

definition calculate_kpis :: "script_vars \<Rightarrow> py_error + script_vars" where
  "calculate_kpis s =
     (case avg_cost_per_unit (var_df s) of
        Inl e \<Rightarrow> Inl e
      | Inr a \<Rightarrow>
          Inr (s\<lparr>var_total_units := Some (total_units (var_df s)),
                 var_total_cost := Some (total_cost (var_df s)),
                 var_avg_cost_per_unit := Some a,
                 var_num_departments := Some (num_departments (var_df s))\<rparr>))"

text \<open>Lines 161-167 and 186.\<close>

definition monthly_aggregation :: "script_vars \<Rightarrow> script_vars" where
  "monthly_aggregation s = s\<lparr>var_monthly_data := Some (monthly_data (var_df s))\<rparr>"

definition departmental_aggregation :: "script_vars \<Rightarrow> script_vars" where
  "departmental_aggregation s = s\<lparr>var_unit_data := Some (unit_data (var_df s))\<rparr>"

text \<open>Lines 210-212 and 227.\<close>

definition cost_analysis :: "script_vars \<Rightarrow> script_vars" where
  "cost_analysis s =
     s\<lparr>var_monthly_cost := Some (monthly_cost (var_df s)),
       var_unit_cost := Some (unit_cost (var_df s))\<rparr>"

text \<open>
  Line 270. \<open>df.to_csv(index=False)\<close> is the library's serializer, a parameter here.
\<close>

definition export_csv :: "(dataframe \<Rightarrow> string) \<Rightarrow> script_vars \<Rightarrow> script_vars" where
  "export_csv to_csv s = s\<lparr>var_csv_data := Some (to_csv (var_df s))\<rparr>"

text \<open>
  Lines 280-297, run when the button is pressed. The text is formatted from the four
  indicators, \<open>unit_data\<close> and \<open>monthly_data\<close>; the formatting (number formats, the
  time stamp, \<open>nlargest\<close>, \<open>idxmax\<close>, \<open>idxmin\<close>) is the parameter \<open>render\<close>.
\<close>

type_synonym report_input =
  "real option \<times> real option \<times> real option \<times> nat option
   \<times> (string \<times> real) list option \<times> (string option \<times> real) list option"

definition generate_report :: "(report_input \<Rightarrow> string) \<Rightarrow> bool \<Rightarrow> script_vars \<Rightarrow> script_vars" where
  "generate_report render button s =
     (if button then
        s\<lparr>var_report :=
            Some (render (var_total_units s, var_total_cost s, var_avg_cost_per_unit s,
                          var_num_departments s, var_unit_data s, var_monthly_data s))\<rparr>
      else s)"

text \<open>
  How a run of the script ends: stopped by \<open>st.stop()\<close> after \<open>st.error(msg)\<close>, ended by
  an exception, or run to its last line with the variables it has assigned.
\<close>

datatype outcome = Stopped string | Raised py_error | Finished script_vars

definition dashboard ::
  "(dataframe \<Rightarrow> string) \<Rightarrow> (report_input \<Rightarrow> string) \<Rightarrow> bool \<Rightarrow> dataframe \<Rightarrow> outcome"
where
  "dashboard to_csv render button df =
     (case validate df of
        Inl msg \<Rightarrow> Stopped msg
      | Inr _ \<Rightarrow>
          (case calculate_kpis (initial_vars df) of
             Inl e \<Rightarrow> Raised e
           | Inr s \<Rightarrow>
               Finished
                 (generate_report render button
                   (export_csv to_csv
                     (cost_analysis (departmental_aggregation (monthly_aggregation s)))))))"

text \<open>
  The charts and the tables of the \<open>Detailed Analysis\<close> selector (lines 169-262) only
  display: they assign no variable that a later line reads, and are left out.
\<close>

subsection \<open>Concrete inputs\<close>

text \<open>A table whose header lacks only \<open>Cost\<close>.\<close>

definition table_without_Cost :: dataframe where
  "table_without_Cost = \<lparr>columns = [''Month'', ''UnitName'', ''UnitsConsumed''], rows = []\<rparr>"

text \<open>The two rows of the example in section 8 of the specification.\<close>

definition example_table :: dataframe where
  "example_table =
     DataFrame [\<lparr>Month = ''January'', UnitName = ''Kitchen'', UnitsConsumed = 100, Cost = 15\<rparr>,
                \<lparr>Month = ''January'', UnitName = ''Office'', UnitsConsumed = 50, Cost = 7.5\<rparr>]"

text \<open>A table of zero consumption and nonzero cost.\<close>

definition zero_table :: dataframe where
  "zero_table =
     DataFrame [\<lparr>Month = ''January'', UnitName = ''Kitchen'', UnitsConsumed = 0, Cost = 15\<rparr>,
                \<lparr>Month = ''March'', UnitName = ''Office'', UnitsConsumed = 0, Cost = 7.5\<rparr>]"

text \<open>Rows whose months are not in calendar order.\<close>

definition unordered_table :: dataframe where
  "unordered_table =
     DataFrame [\<lparr>Month = ''March'', UnitName = ''Kitchen'', UnitsConsumed = 30, Cost = 3\<rparr>,
                \<lparr>Month = ''January'', UnitName = ''Office'', UnitsConsumed = 10, Cost = 1\<rparr>,
                \<lparr>Month = ''March'', UnitName = ''Office'', UnitsConsumed = 5, Cost = 2\<rparr>]"

text \<open>
  One row for each of the twelve month names and one for a thirteenth string; the header
  is complete, so the table passes validation.
\<close>

definition thirteen_months_table :: dataframe where
  "thirteen_months_table =
     DataFrame (map (\<lambda>m. \<lparr>Month = m, UnitName = ''Kitchen'', UnitsConsumed = 1, Cost = 1\<rparr>)
                  (months @ [''Smarch'']))"

text \<open>A session before the first manual entry.\<close>

definition empty_session :: session_state where
  "empty_session = \<lparr>manual_data = None\<rparr>"



section \<open>Properties\<close>

subsection \<open>Validation\<close>

lemma validate_message:
  "''CSV file must contain columns: '' @ join '', '' required_columns
     = ''CSV file must contain columns: Month, UnitName, UnitsConsumed, Cost''"
  by (simp add: required_columns_def)

lemma named_columns_message:
  "named_columns ''CSV file must contain columns: Month, UnitName, UnitsConsumed, Cost''
     = [''Month'', ''UnitName'', ''UnitsConsumed'', ''Cost'']"
  unfolding named_columns_def required_columns_def by code_simp

lemma validate_DataFrame: "validate (DataFrame data) = Inr ()"
  by (simp add: validate_def DataFrame_def required_columns_def)

text \<open>
  C1, as stated, fails: the error of a table that lacks only \<open>Cost\<close> is the fixed text
  listing all four required names. The names it mentions are not the missing ones:
  it mentions \<open>Month\<close>, \<open>UnitName\<close> and \<open>UnitsConsumed\<close>, which the table has.
\<close>

theorem C1_counterexample:
  "validate table_without_Cost
     = Inl ''CSV file must contain columns: Month, UnitName, UnitsConsumed, Cost''
   \<and> missing_columns table_without_Cost = [''Cost'']
   \<and> named_columns ''CSV file must contain columns: Month, UnitName, UnitsConsumed, Cost''
       = [''Month'', ''UnitName'', ''UnitsConsumed'', ''Cost'']
   \<and> named_columns ''CSV file must contain columns: Month, UnitName, UnitsConsumed, Cost''
       \<noteq> missing_columns table_without_Cost"
  by (simp add: named_columns_message validate_def missing_columns_def
      table_without_Cost_def required_columns_def)

text \<open>
  C1, amended: a table whose header lacks at least one of the four required names fails
  validation with the fixed message that lists all four required names, whichever are
  missing; every missing name therefore occurs in the message. The run is stopped there:
  the script ends with that message and assigns no indicator and no grouped view.
\<close>

theorem C1_missing_columns_stop:
  assumes "\<not> set required_columns \<subseteq> set (columns df)"
  shows "validate df = Inl ''CSV file must contain columns: Month, UnitName, UnitsConsumed, Cost''
    \<and> dashboard to_csv render button df
        = Stopped ''CSV file must contain columns: Month, UnitName, UnitsConsumed, Cost''
    \<and> missing_columns df \<noteq> []
    \<and> set (missing_columns df)
        \<subseteq> set (named_columns ''CSV file must contain columns: Month, UnitName, UnitsConsumed, Cost'')"
proof -
  have nall: "\<not> list_all (\<lambda>col. col \<in> set (columns df)) required_columns"
    using assms by (auto simp: list_all_iff)
  have v: "validate df = Inl ''CSV file must contain columns: Month, UnitName, UnitsConsumed, Cost''"
    unfolding validate_def using nall validate_message by simp
  have d: "dashboard to_csv render button df
        = Stopped ''CSV file must contain columns: Month, UnitName, UnitsConsumed, Cost''"
    unfolding dashboard_def by (simp add: v)
  have m: "missing_columns df \<noteq> []"
    using assms unfolding missing_columns_def by (auto simp: filter_empty_conv)
  have s: "set (missing_columns df)
        \<subseteq> set (named_columns ''CSV file must contain columns: Month, UnitName, UnitsConsumed, Cost'')"
    unfolding named_columns_message unfolding missing_columns_def required_columns_def by auto
  from v d m s show ?thesis by blast
qed

text \<open>The amended C1 at the table that lacks only \<open>Cost\<close>.\<close>

theorem C1_missing_columns_stop_witness:
  "\<not> set required_columns \<subseteq> set (columns table_without_Cost)
   \<and> validate table_without_Cost
       = Inl ''CSV file must contain columns: Month, UnitName, UnitsConsumed, Cost''
   \<and> dashboard (\<lambda>t. []) (\<lambda>i. []) True table_without_Cost
       = Stopped ''CSV file must contain columns: Month, UnitName, UnitsConsumed, Cost''"
proof -
  have h: "\<not> set required_columns \<subseteq> set (columns table_without_Cost)"
    by (simp add: required_columns_def table_without_Cost_def)
  from C1_missing_columns_stop [OF h, of "\<lambda>t. []" "\<lambda>i. []" True] h show ?thesis by blast
qed

subsection \<open>Key performance indicators\<close>

lemma avg_cost_per_unit_no_error: "avg_cost_per_unit df \<noteq> Inl e"
  by (simp add: avg_cost_per_unit_def truediv_def)

lemma calculate_kpis_var_df: "calculate_kpis s = Inr s' \<Longrightarrow> var_df s' = var_df s"
  by (auto simp: calculate_kpis_def split: sum.splits)

lemma calculate_kpis_Inr: "\<exists>s'. calculate_kpis s = Inr s'"
  unfolding calculate_kpis_def
  by (cases "avg_cost_per_unit (var_df s)") (simp_all add: avg_cost_per_unit_no_error)

lemma sum_list_all_zero:
  "\<forall>x \<in> set xs. f x = (0::real) \<Longrightarrow> sum_list (map f xs) = 0"
  by (induction xs) auto

lemma total_units_example: "total_units example_table = 150"
  by (simp add: total_units_def example_table_def DataFrame_def)








text \<open>
  C4: the average is \<open>total_cost / total_units\<close> when \<open>total_units\<close> is positive and 0 when
  it is 0, in particular when every row has zero consumption; the division is never
  reached with a zero divisor, so neither the average nor the indicator step ends in
  \<open>ZeroDivisionError\<close>.
\<close>

theorem C4_avg_cost_per_unit:
  "(0 < total_units df \<longrightarrow> avg_cost_per_unit df = Inr (total_cost df / total_units df))
   \<and> (total_units df = 0 \<longrightarrow> avg_cost_per_unit df = Inr 0)
   \<and> ((\<forall>r \<in> set (rows df). UnitsConsumed r = 0) \<longrightarrow> avg_cost_per_unit df = Inr 0)
   \<and> avg_cost_per_unit df \<noteq> Inl ZeroDivisionError
   \<and> calculate_kpis (initial_vars df) \<noteq> Inl ZeroDivisionError"
proof -
  have z: "(\<forall>r \<in> set (rows df). UnitsConsumed r = 0) \<longrightarrow> total_units df = 0"
  proof
    assume h: "\<forall>r \<in> set (rows df). UnitsConsumed r = 0"
    show "total_units df = 0"
      unfolding total_units_def using h by (rule sum_list_all_zero)
  qed
  have k: "calculate_kpis (initial_vars df) \<noteq> Inl ZeroDivisionError"
    unfolding calculate_kpis_def
    by (cases "avg_cost_per_unit (var_df (initial_vars df))")
       (simp_all add: avg_cost_per_unit_no_error)
  show ?thesis using z k
    by (auto simp: avg_cost_per_unit_def truediv_def)
qed

text \<open>C4 at a table of positive consumption and at a table of zero consumption.\<close>

theorem C4_avg_cost_per_unit_witness:
  "0 < total_units example_table
   \<and> avg_cost_per_unit example_table
       = Inr (total_cost example_table / total_units example_table)
   \<and> total_units zero_table = 0
   \<and> map UnitsConsumed (rows zero_table) = [0, 0]
   \<and> avg_cost_per_unit zero_table = Inr 0"
proof -
  have p: "0 < total_units example_table"
    by (simp add: total_units_example)
  have z: "\<forall>r \<in> set (rows zero_table). UnitsConsumed r = 0"
    by (simp add: zero_table_def DataFrame_def)
  have t: "total_units zero_table = 0"
    by (simp add: total_units_def zero_table_def DataFrame_def)
  have m: "map UnitsConsumed (rows zero_table) = [0, 0]"
    by (simp add: zero_table_def DataFrame_def)
  from p z t m C4_avg_cost_per_unit [of example_table] C4_avg_cost_per_unit [of zero_table]
  show ?thesis by blast
qed

subsection \<open>Monthly aggregation\<close>

lemma length_groupby_sum: "length (groupby_sum key val rs) = card (key ` set rs)"
  by (simp add: groupby_sum_def length_remdups_card_conv)

lemma length_order_months: "length (order_months t) = length t"
  by (simp add: order_months_def)

lemma length_monthly_data: "length (monthly_data df) = card (Month ` set (rows df))"
  by (simp add: monthly_data_def length_order_months length_groupby_sum)

lemma rank_month_order:
  "map (\<lambda>m. category_rank month_order (Some m)) month_order
     = [0, 1, 2, 3, 4, 5, 6, 7, 8, 9, 10, 11]"
  by (simp add: month_order_def)

lemma sorted_rank_month_order:
  "sorted_wrt (<) (map (\<lambda>m. category_rank month_order (Some m)) month_order)"
  unfolding rank_month_order by simp

lemma inj_rank_month_order:
  "inj_on (\<lambda>m. category_rank month_order (Some m)) (set month_order)"
proof -
  have "distinct (map (\<lambda>m. category_rank month_order (Some m)) month_order)"
    using sorted_rank_month_order by (simp add: strict_sorted_iff)
  then show ?thesis by (simp add: distinct_map)
qed

lemma order_months_recognised:
  assumes rec: "\<forall>r \<in> set rs. Month r \<in> set month_order"
  shows "order_months (groupby_sum Month val rs)
           = map (\<lambda>m. (Some m, sum_list (map val (filter (\<lambda>r. Month r = m) rs))))
               (filter (\<lambda>m. m \<in> Month ` set rs) month_order)"
proof -
  define g where "g = (\<lambda>m. (Some m, sum_list (map val (filter (\<lambda>r. Month r = m) rs))))"
  define f where "f = (\<lambda>row :: string option \<times> real. category_rank month_order (fst row))"
  define ks where "ks = sort (remdups (map Month rs))"
  define ys where "ys = map g (filter (\<lambda>m. m \<in> Month ` set rs) month_order)"
  have ks_set: "set ks = Month ` set rs" by (simp add: ks_def)
  have ks_sub: "set ks \<subseteq> set month_order" using rec ks_set by auto
  have ks_dist: "distinct ks" by (simp add: ks_def)
  have fg: "f (g m) = category_rank month_order (Some m)" for m
    by (simp add: f_def g_def)
  have inj_g: "inj g" by (simp add: g_def inj_on_def)
  have cat: "map (\<lambda>(m, v). (Categorical month_order m, v))
               (map (\<lambda>k. (k, sum_list (map val (filter (\<lambda>r. Month r = k) rs)))) ks)
             = map g ks"
    using ks_sub by (auto simp: g_def Categorical_def)
  have lhs: "order_months (groupby_sum Month val rs) = sort_key f (map g ks)"
    unfolding order_months_def groupby_sum_def ks_def [symmetric] cat f_def ..
  have set_eq: "set (sort_key f (map g ks)) = set ys"
    using ks_set ks_sub by (auto simp: ys_def)
  have sub_img: "set (sort_key f (map g ks)) \<union> set ys \<subseteq> g ` set month_order"
    using ks_sub by (auto simp: ys_def)
  have inj_f_img: "inj_on f (g ` set month_order)"
  proof (rule inj_onI)
    fix a b assume "a \<in> g ` set month_order" "b \<in> g ` set month_order" "f a = f b"
    then obtain m n where m: "m \<in> set month_order" "a = g m"
      and n: "n \<in> set month_order" "b = g n" by auto
    with \<open>f a = f b\<close> have "category_rank month_order (Some m) = category_rank month_order (Some n)"
      by (simp add: fg)
    with inj_rank_month_order m n have "m = n" by (auto dest: inj_onD)
    with m n show "a = b" by simp
  qed
  have inj_f: "inj_on f (set (sort_key f (map g ks)) \<union> set ys)"
    using inj_f_img sub_img by (rule inj_on_subset)
  have sorted_l: "sorted (map f (sort_key f (map g ks)))"
    by (rule sorted_sort_key)
  have dist_gks: "distinct (map g ks)"
    using ks_dist inj_g by (simp add: distinct_map inj_on_def)
  have dist_l: "distinct (map f (sort_key f (map g ks)))"
  proof -
    have "inj_on f (set (sort_key f (map g ks)))"
      using inj_f by (rule inj_on_subset) simp
    then show ?thesis using dist_gks by (simp add: distinct_map)
  qed
  have map_ys: "map f ys = map (\<lambda>m. category_rank month_order (Some m))
                             (filter (\<lambda>m. m \<in> Month ` set rs) month_order)"
    by (simp add: ys_def fg comp_def)
  have strict_ys: "sorted_wrt (<) (map f ys)"
    unfolding map_ys sorted_wrt_map
    using sorted_rank_month_order unfolding sorted_wrt_map by (rule sorted_wrt_filter)
  then have sorted_r: "sorted (map f ys)" and dist_r: "distinct (map f ys)"
    by (simp_all add: strict_sorted_iff)
  have "sort_key f (map g ks) = ys"
    using inj_f sorted_l dist_l sorted_r dist_r set_eq by (rule map_sorted_distinct_set_unique)
  then show ?thesis by (simp add: lhs ys_def g_def)
qed

lemma months_thirteen:
  "map Month (rows thirteen_months_table) = months @ [''Smarch'']"
  by (simp add: thirteen_months_table_def DataFrame_def comp_def)

lemma length_monthly_data_thirteen: "length (monthly_data thirteen_months_table) = 13"
  by (simp add: monthly_data_def length_order_months groupby_sum_def months_thirteen months_def)

text \<open>
  C5, as stated, fails: validation does not look at month names, and a validated table
  with thirteen distinct month strings gives a monthly view of thirteen rows, more
  than 12.
\<close>

theorem C5_counterexample:
  "validate thirteen_months_table = Inr ()
   \<and> length (monthly_data thirteen_months_table) = 13
   \<and> \<not> length (monthly_data thirteen_months_table) \<le> 12"
proof -
  have v: "validate thirteen_months_table = Inr ()"
    by (simp add: thirteen_months_table_def validate_DataFrame)
  from v length_monthly_data_thirteen show ?thesis by simp
qed

text \<open>
  C5, amended: the monthly views have exactly one row per distinct month string of the
  input, so as many rows as the input has distinct months. When every month of the
  input is one of the twelve calendar names, the rows are the calendar months present
  in the input (absent months are omitted), each with the sum over its rows, there are
  at most 12 of them, and they are in calendar order.
\<close>

theorem C5_monthly_aggregation:
  "length (monthly_data df) = card (Month ` set (rows df))
   \<and> length (monthly_cost df) = card (Month ` set (rows df))
   \<and> ((\<forall>r \<in> set (rows df). Month r \<in> set month_order) \<longrightarrow>
        monthly_data df
          = map (\<lambda>m. (Some m, sum_list (map UnitsConsumed (filter (\<lambda>r. Month r = m) (rows df)))))
              (filter (\<lambda>m. m \<in> Month ` set (rows df)) month_order)
      \<and> monthly_cost df
          = map (\<lambda>m. (Some m, sum_list (map Cost (filter (\<lambda>r. Month r = m) (rows df)))))
              (filter (\<lambda>m. m \<in> Month ` set (rows df)) month_order)
      \<and> length (monthly_data df) \<le> 12
      \<and> sorted_wrt (<) (map (\<lambda>row. category_rank month_order (fst row)) (monthly_data df)))"
proof -
  have l1: "length (monthly_data df) = card (Month ` set (rows df))"
    by (rule length_monthly_data)
  have l2: "length (monthly_cost df) = card (Month ` set (rows df))"
    by (simp add: monthly_cost_def length_order_months length_groupby_sum)
  have r: "monthly_data df
          = map (\<lambda>m. (Some m, sum_list (map UnitsConsumed (filter (\<lambda>r. Month r = m) (rows df)))))
              (filter (\<lambda>m. m \<in> Month ` set (rows df)) month_order)
      \<and> monthly_cost df
          = map (\<lambda>m. (Some m, sum_list (map Cost (filter (\<lambda>r. Month r = m) (rows df)))))
              (filter (\<lambda>m. m \<in> Month ` set (rows df)) month_order)
      \<and> length (monthly_data df) \<le> 12
      \<and> sorted_wrt (<) (map (\<lambda>row. category_rank month_order (fst row)) (monthly_data df))"
    if rec: "\<forall>r \<in> set (rows df). Month r \<in> set month_order"
  proof -
    have d: "monthly_data df
          = map (\<lambda>m. (Some m, sum_list (map UnitsConsumed (filter (\<lambda>r. Month r = m) (rows df)))))
              (filter (\<lambda>m. m \<in> Month ` set (rows df)) month_order)"
      unfolding monthly_data_def using rec by (rule order_months_recognised)
    have c: "monthly_cost df
          = map (\<lambda>m. (Some m, sum_list (map Cost (filter (\<lambda>r. Month r = m) (rows df)))))
              (filter (\<lambda>m. m \<in> Month ` set (rows df)) month_order)"
      unfolding monthly_cost_def using rec by (rule order_months_recognised)
    have "length (monthly_data df) \<le> length month_order"
      unfolding d by simp
    then have b: "length (monthly_data df) \<le> 12"
      by (simp add: month_order_def)
    have m: "map (\<lambda>row. category_rank month_order (fst row)) (monthly_data df)
               = map (\<lambda>m. category_rank month_order (Some m))
                   (filter (\<lambda>m. m \<in> Month ` set (rows df)) month_order)"
      unfolding d by (simp add: comp_def)
    have s: "sorted_wrt (<) (map (\<lambda>row. category_rank month_order (fst row)) (monthly_data df))"
      unfolding m sorted_wrt_map
      using sorted_rank_month_order unfolding sorted_wrt_map by (rule sorted_wrt_filter)
    from d c b s show ?thesis by (intro conjI)
  qed
  from l1 l2 r show ?thesis by blast
qed

text \<open>The amended C5 at a table whose rows are March, January, March.\<close>

theorem C5_monthly_aggregation_witness:
  "set (map Month (rows unordered_table)) \<subseteq> set month_order
   \<and> monthly_data unordered_table = [(Some ''January'', 10), (Some ''March'', 35)]
   \<and> monthly_cost unordered_table = [(Some ''January'', 1), (Some ''March'', 5)]
   \<and> length (monthly_data unordered_table) \<le> 12"
proof -
  have h: "\<forall>r \<in> set (rows unordered_table). Month r \<in> set month_order"
    by (simp add: unordered_table_def DataFrame_def month_order_def)
  have i: "filter (\<lambda>m. m \<in> Month ` set (rows unordered_table)) month_order
             = [''January'', ''March'']"
    by (simp add: unordered_table_def DataFrame_def month_order_def)
  from C5_monthly_aggregation [of unordered_table] h
  have d: "monthly_data unordered_table
          = map (\<lambda>m. (Some m, sum_list (map UnitsConsumed
                                 (filter (\<lambda>r. Month r = m) (rows unordered_table)))))
              (filter (\<lambda>m. m \<in> Month ` set (rows unordered_table)) month_order)"
    and c: "monthly_cost unordered_table
          = map (\<lambda>m. (Some m, sum_list (map Cost
                                 (filter (\<lambda>r. Month r = m) (rows unordered_table)))))
              (filter (\<lambda>m. m \<in> Month ` set (rows unordered_table)) month_order)"
    and b: "length (monthly_data unordered_table) \<le> 12"
    by blast+
  have d': "monthly_data unordered_table = [(Some ''January'', 10), (Some ''March'', 35)]"
    unfolding d i by (simp add: unordered_table_def DataFrame_def)
  have c': "monthly_cost unordered_table = [(Some ''January'', 1), (Some ''March'', 5)]"
    unfolding c i by (simp add: unordered_table_def DataFrame_def)
  have h': "set (map Month (rows unordered_table)) \<subseteq> set month_order"
    using h by auto
  from h' d' c' b show ?thesis by (intro conjI)
qed

subsection \<open>Sample data\<close>

















subsection \<open>The run after loading\<close>

lemma dashboard_valid_finishes:
  assumes "validate df = Inr ()"
  shows "\<exists>s. dashboard to_csv render button df = Finished s \<and> var_df s = df"
proof -
  obtain s where s: "calculate_kpis (initial_vars df) = Inr s"
    using calculate_kpis_Inr by blast
  have d: "var_df s = df"
    using calculate_kpis_var_df [OF s] by (simp add: initial_vars_def)
  show ?thesis
    unfolding dashboard_def using assms s d
    by (simp add: generate_report_def export_csv_def cost_analysis_def
        departmental_aggregation_def monthly_aggregation_def)
qed



text \<open>
  C9: every step after loading leaves the table \<open>df\<close> as it was and puts its result in
  a variable of its own: the indicators, the monthly and departmental views, the cost
  views, the CSV text and the report. A run that reaches the last line ends with the
  table it was started on.
\<close>

theorem C9_table_unchanged:
  "(\<exists>s'. calculate_kpis s = Inr s' \<and> var_df s' = var_df s)
   \<and> var_df (monthly_aggregation s) = var_df s
   \<and> var_monthly_data (monthly_aggregation s) = Some (monthly_data (var_df s))
   \<and> var_df (departmental_aggregation s) = var_df s
   \<and> var_unit_data (departmental_aggregation s) = Some (unit_data (var_df s))
   \<and> var_df (cost_analysis s) = var_df s
   \<and> var_df (export_csv to_csv s) = var_df s
   \<and> var_df (generate_report render button s) = var_df s
   \<and> (\<forall>s'. dashboard to_csv render button df = Finished s' \<longrightarrow> var_df s' = df)"
proof -
  have k: "\<exists>s'. calculate_kpis s = Inr s' \<and> var_df s' = var_df s"
    using calculate_kpis_Inr [of s] calculate_kpis_var_df by blast
  have d: "\<forall>s'. dashboard to_csv render button df = Finished s' \<longrightarrow> var_df s' = df"
  proof (cases "validate df")
    case (Inl msg)
    then show ?thesis by (simp add: dashboard_def)
  next
    case (Inr u)
    then have "validate df = Inr ()" by simp
    from dashboard_valid_finishes [OF this, of to_csv render button]
    show ?thesis by auto
  qed
  have m: "var_df (monthly_aggregation s) = var_df s"
    and m': "var_monthly_data (monthly_aggregation s) = Some (monthly_data (var_df s))"
    by (simp_all add: monthly_aggregation_def)
  have u: "var_df (departmental_aggregation s) = var_df s"
    and u': "var_unit_data (departmental_aggregation s) = Some (unit_data (var_df s))"
    by (simp_all add: departmental_aggregation_def)
  have c: "var_df (cost_analysis s) = var_df s"
    by (simp add: cost_analysis_def)
  have e: "var_df (export_csv to_csv s) = var_df s"
    by (simp add: export_csv_def)
  have r: "var_df (generate_report render button s) = var_df s"
    by (simp add: generate_report_def)
  from k m m' u u' c e r d show ?thesis by (intro conjI)
qed

text \<open>C9 at the two-row example, with the report button pressed.\<close>

theorem C9_table_unchanged_witness:
  "(\<exists>s'. calculate_kpis (initial_vars example_table) = Inr s' \<and> var_df s' = example_table)
   \<and> (\<exists>s'. dashboard (\<lambda>t. []) (\<lambda>i. []) True example_table = Finished s'
          \<and> var_df s' = example_table)"
proof -
  have "validate example_table = Inr ()"
    by (simp add: example_table_def validate_DataFrame)
  then obtain s where s: "dashboard (\<lambda>t. []) (\<lambda>i. []) True example_table = Finished s"
    using dashboard_valid_finishes by blast
  have i: "var_df (initial_vars example_table) = example_table"
    by (simp add: initial_vars_def)
  from C9_table_unchanged [of "initial_vars example_table" "\<lambda>t. []" "\<lambda>i. []" True example_table]
  have k: "\<exists>s'. calculate_kpis (initial_vars example_table) = Inr s'
            \<and> var_df s' = var_df (initial_vars example_table)"
    and d: "var_df s = example_table"
    using s by blast+
  from k d s show ?thesis unfolding i by blast
qed

subsection \<open>Manual entry\<close>

text \<open>
  C10: a submission with a non-empty unit name appends its record to the accumulated
  list (starting the list if the session has none); a submission with an empty unit
  name leaves the session as it was, and so does a run in which the form was not
  submitted.
\<close>

theorem C10_manual_entry:
  "(unit_name \<noteq> [] \<longrightarrow>
      manual_data (fst (manual_entry st True month unit_name units_consumed cost))
        = Some ((case manual_data st of None \<Rightarrow> [] | Some xs \<Rightarrow> xs)
                @ [\<lparr>Month = month, UnitName = unit_name,
                     UnitsConsumed = units_consumed, Cost = cost\<rparr>]))
   \<and> (unit_name = [] \<longrightarrow>
        manual_entry st submitted month unit_name units_consumed cost = (st, None))
   \<and> manual_entry st False month unit_name units_consumed cost = (st, None)"
  by (cases "manual_data st") (simp_all add: manual_entry_def)

text \<open>C10 at a fresh session: the entry of \<open>Kitchen\<close> is stored, the entry without a name is not.\<close>

theorem C10_manual_entry_witness:
  "''Kitchen'' \<noteq> []
   \<and> manual_data (fst (manual_entry empty_session True ''May'' ''Kitchen'' 10 2))
       = Some [\<lparr>Month = ''May'', UnitName = ''Kitchen'', UnitsConsumed = 10, Cost = 2\<rparr>]
   \<and> manual_entry empty_session True ''May'' [] 10 2 = (empty_session, None)"
proof -
  have n: "''Kitchen'' \<noteq> []" by simp
  have e: "manual_data empty_session = None" by (simp add: empty_session_def)
  from C10_manual_entry [of "''Kitchen''" empty_session "''May''" 10 2 True]
       C10_manual_entry [of "[]" empty_session "''May''" 10 2 True] n e
  show ?thesis by simp
qed

end
